theory Spec2Isabelle
  imports Main "HOL-Library.Word" "HOL-Library.AList"
begin

section \<open>Values, records and the store\<close>

text \<open>
  The service (\<^verbatim>\<open>service.ts\<close>) works on the JSON document held by lowdb:
  \<^verbatim>\<open>type Item = Record<string, unknown>\<close> and
  \<^verbatim>\<open>type Data = Record<string, Item[] | Item>\<close>.

  A JavaScript value is one of the JSON kinds, or \<^verbatim>\<open>undefined\<close>. The type
  \<open>'n\<close> is the type of the number values: what they are (integers, fractions,
  the doubles of the language) is left open, and so is what
  \<^verbatim>\<open>Number.prototype.toString()\<close> prints for them: it is the parameter \<open>ts\<close>
  of the operations that call it. Two number values are equal when \<^verbatim>\<open>===\<close>
  holds of them (a document read from JSON has no \<^verbatim>\<open>NaN\<close>).

  An object is the list of its own properties in insertion order (JavaScript puts
  keys that are array indices first; the statements below read records through
  \<open>getp\<close>, which does not depend on the order).
\<close>

datatype 'n jv =
    JUndef
  | JNull
  | JBool bool
  | JNum 'n
  | JStr string
  | JObj "(string \<times> 'n jv) list"
  | JArr "'n jv list"

type_synonym 'n item = "(string \<times> 'n jv) list"

text \<open>
  What \<^verbatim>\<open>db.data[name]\<close> can be: an array of records, a single record, or, for
  a name that the document does not have itself, a member that the document inherits
  from \<^verbatim>\<open>Object.prototype\<close> (a function such as \<^verbatim>\<open>toString\<close>, or the
  prototype itself for \<^verbatim>\<open>__proto__\<close>): a truthy value that is not an array.
\<close>

datatype 'n coll = Items "'n item list" | Single "'n item" | Inherited string

text \<open>The own properties of the document, in order.\<close>

type_synonym 'n data = "(string \<times> 'n coll) list"

text \<open>The property names of \<^verbatim>\<open>Object.prototype\<close>.\<close>

definition protoNames :: "string list" where
  "protoNames =
     [''constructor'', ''__defineGetter__'', ''__defineSetter__'', ''hasOwnProperty'',
      ''__lookupGetter__'', ''__lookupSetter__'', ''isPrototypeOf'',
      ''propertyIsEnumerable'', ''toString'', ''valueOf'', ''__proto__'',
      ''toLocaleString'']"

text \<open>
  \<^verbatim>\<open>db.data[name]\<close>: the own property; failing that, the inherited member;
  failing that, \<^verbatim>\<open>undefined\<close> (\<open>None\<close>).
\<close>

definition dataProp :: "'n data \<Rightarrow> string \<Rightarrow> 'n coll option" where
  "dataProp d name =
     (case map_of d name of
        Some c \<Rightarrow> Some c
      | None \<Rightarrow> if name \<in> set protoNames then Some (Inherited name) else None)"

text \<open>
  \<^verbatim>\<open>item[k]\<close> on a record: the own property, or \<^verbatim>\<open>undefined\<close>. The
  keys that the service reads in a record are \<^verbatim>\<open>id\<close> and a foreign key
  \<^verbatim>\<open>...Id\<close>; neither is a property name of \<^verbatim>\<open>Object.prototype\<close>
  (\<open>id_not_inherited\<close>, \<open>foreignKey_not_inherited\<close> below), so nothing is
  inherited there.
\<close>

definition getp :: "'n item \<Rightarrow> string \<Rightarrow> 'n jv" where
  "getp it k = (case map_of it k of None \<Rightarrow> JUndef | Some v \<Rightarrow> v)"

text \<open>
  \<^verbatim>\<open>item[k] = v\<close> is \<^const>\<open>AList.update\<close>: an existing property keeps its
  place and takes the new value, a new property is added last.

  Object spread \<^verbatim>\<open>{ ...src }\<close> onto a target under construction: for every own key
  of the source, in order, the property is read and defined on the target.
\<close>

definition spread :: "'n item \<Rightarrow> 'n item \<Rightarrow> 'n item" where
  "spread tgt src = fold (\<lambda>k t. AList.update k (getp src k) t) (map fst src) tgt"

text \<open>
  Strict equality \<^verbatim>\<open>===\<close>. Primitives are compared by kind and value, with no
  coercion. Objects and arrays are compared by reference; two values read from two
  places of a document parsed from JSON are never the same object.
\<close>

fun strict_eq :: "'n jv \<Rightarrow> 'n jv \<Rightarrow> bool" where
  "strict_eq JUndef JUndef = True"
| "strict_eq JNull JNull = True"
| "strict_eq (JBool a) (JBool b) = (a = b)"
| "strict_eq (JNum a) (JNum b) = (a = b)"
| "strict_eq (JStr a) (JStr b) = (a = b)"
| "strict_eq _ _ = False"


section \<open>Identifiers\<close>

text \<open>
  \<^verbatim>\<open>randomBytes(2).toString('hex')\<close>: two bytes from the operating system, printed
  as four lower-case hexadecimal digits. The source of randomness is outside the
  program: the \<open>n\<close>-th call of \<^verbatim>\<open>randomBytes(2)\<close> returns \<open>rnd n\<close>.
\<close>

type_synonym draw = "8 word \<times> 8 word"

definition hexDigit :: "nat \<Rightarrow> char" where
  "hexDigit n = ''0123456789abcdef'' ! (n mod 16)"

definition hexByte :: "8 word \<Rightarrow> string" where
  "hexByte b = [hexDigit (unat b div 16), hexDigit (unat b mod 16)]"

definition randomId :: "draw \<Rightarrow> string" where
  "randomId d = hexByte (fst d) @ hexByte (snd d)"

text \<open>
  The state of a service: the document \<^verbatim>\<open>db.data\<close>, the number of calls of
  \<^verbatim>\<open>db.write()\<close> so far, and the number of calls of \<^verbatim>\<open>randomBytes\<close> so far.
  \<^verbatim>\<open>db.write()\<close> belongs to lowdb; it is taken to succeed.
\<close>

record 'n service =
  data :: "'n data"
  writes :: nat
  drawn :: nat






section \<open>Relations\<close>

text \<open>
  \<^verbatim>\<open>inflection.singularize\<close> is a library outside the repository: it is the
  parameter \<open>sg\<close> of every operation that builds a foreign key.
\<close>

definition foreignKey :: "(string \<Rightarrow> string) \<Rightarrow> string \<Rightarrow> string" where
  "foreignKey sg name = sg name @ ''Id''"

text \<open>\<^verbatim>\<open>ensureArray(arg: string | string[] = [])\<close>\<close>

datatype names_arg = NoArg | OneName string | ManyNames "string list"

fun ensureArray :: "names_arg \<Rightarrow> string list" where
  "ensureArray NoArg = []"
| "ensureArray (OneName s) = [s]"
| "ensureArray (ManyNames ss) = ss"

text \<open>
  \<^verbatim>\<open>embed\<close>. When \<^verbatim>\<open>db.data[related]\<close> is \<^verbatim>\<open>undefined\<close> the record is
  returned as it is. Any other value is truthy and \<^verbatim>\<open>relatedData.filter\<close> is
  called on it: an array has that method; a single record and an inherited member
  have not, and the call throws a \<^verbatim>\<open>TypeError\<close>.
\<close>

datatype error = TypeError

definition embed ::
  "(string \<Rightarrow> string) \<Rightarrow> 'n data \<Rightarrow> string \<Rightarrow> 'n item \<Rightarrow> string \<Rightarrow> error + 'n item" where
  "embed sg d name it related =
     (case dataProp d related of
        None \<Rightarrow> Inr it
      | Some (Items relatedData) \<Rightarrow>
          (let fk = foreignKey sg name;
               relatedItems = filter (\<lambda>r. strict_eq (getp r fk) (getp it ''id'')) relatedData
           in Inr (AList.update related (JArr (map JObj relatedItems)) (spread [] it)))
      | Some _ \<Rightarrow> Inl TypeError)"

text \<open>
  \<^verbatim>\<open>nullifyForeignKey\<close>: every own entry of the document
  (\<^verbatim>\<open>Object.entries\<close>) but the collection itself;
  in an array, a record whose foreign key is the id gets \<^verbatim>\<open>null\<close> there.
\<close>

definition nullifyItem :: "string \<Rightarrow> string \<Rightarrow> 'n item \<Rightarrow> 'n item" where
  "nullifyItem fk ident it =
     (if strict_eq (getp it fk) (JStr ident) then AList.update fk JNull it else it)"

definition nullifyForeignKey ::
  "(string \<Rightarrow> string) \<Rightarrow> 'n data \<Rightarrow> string \<Rightarrow> string \<Rightarrow> 'n data" where
  "nullifyForeignKey sg d name ident =
     map (\<lambda>(key, c).
            if key = name then (key, c)
            else (case c of
                    Items xs \<Rightarrow> (key, Items (map (nullifyItem (foreignKey sg name) ident) xs))
                  | _ \<Rightarrow> (key, c))) d"

text \<open>
  \<^verbatim>\<open>deleteDependents\<close>: every own entry of the document whose key is listed; an array
  keeps the records whose foreign key is not \<^verbatim>\<open>null\<close>.
\<close>

definition deleteDependents ::
  "(string \<Rightarrow> string) \<Rightarrow> 'n data \<Rightarrow> string \<Rightarrow> string list \<Rightarrow> 'n data" where
  "deleteDependents sg d name dependents =
     map (\<lambda>(key, c).
            if key \<notin> set dependents then (key, c)
            else (case c of
                    Items xs \<Rightarrow>
                      (key, Items (filter (\<lambda>it. \<not> strict_eq (getp it (foreignKey sg name)) JNull) xs))
                  | _ \<Rightarrow> (key, c))) d"

section \<open>The service\<close>

text \<open>\<^verbatim>\<open>#get(name)\<close>: \<^verbatim>\<open>this.#db.data[name]\<close>.\<close>

definition get :: "'n service \<Rightarrow> string \<Rightarrow> 'n coll option" where
  "get s name = dataProp (data s) name"

text \<open>\<^verbatim>\<open>has(name)\<close>: \<^verbatim>\<open>hasOwnProperty\<close>, the own properties only.\<close>

definition has :: "'n service \<Rightarrow> string \<Rightarrow> bool" where
  "has s name = (map_of (data s) name \<noteq> None)"

text \<open>\<^verbatim>\<open>items.find((item) => item['id'] === id)\<close>, with a string \<^verbatim>\<open>id\<close>.\<close>

definition hasId :: "string \<Rightarrow> 'n item \<Rightarrow> bool" where
  "hasId ident it = strict_eq (getp it ''id'') (JStr ident)"

text \<open>
  \<^verbatim>\<open>items.indexOf(item)\<close> for the record that \<^verbatim>\<open>find\<close> returned: records are
  compared by reference, so this is the position at which \<^verbatim>\<open>find\<close> stopped.
\<close>

definition indexOfId :: "string \<Rightarrow> 'n item list \<Rightarrow> nat" where
  "indexOfId ident xs = length (takeWhile (\<lambda>it. \<not> hasId ident it) xs)"

text \<open>
  The \<^verbatim>\<open>forEach\<close> of \<^verbatim>\<open>findById\<close>: each related name is embedded into the
  record built so far; an exception ends the loop.
\<close>

fun embedEach ::
  "(string \<Rightarrow> string) \<Rightarrow> 'n data \<Rightarrow> string \<Rightarrow> 'n item \<Rightarrow> string list \<Rightarrow> error + 'n item" where
  "embedEach sg d name it [] = Inr it"
| "embedEach sg d name it (related # rest) =
     (case embed sg d name it related of
        Inl e \<Rightarrow> Inl e
      | Inr it' \<Rightarrow> embedEach sg d name it' rest)"

definition findById ::
  "(string \<Rightarrow> string) \<Rightarrow> 'n service \<Rightarrow> string \<Rightarrow> string \<Rightarrow> names_arg \<Rightarrow> error + 'n item option" where
  "findById sg s name ident q_embed =
     (case get s name of
        Some (Items xs) \<Rightarrow>
          (case find (hasId ident) xs of
             None \<Rightarrow> Inr None
           | Some it \<Rightarrow>
               (case embedEach sg (data s) name it (ensureArray q_embed) of
                  Inl e \<Rightarrow> Inl e
                | Inr it' \<Rightarrow> Inr (Some it')))
      | _ \<Rightarrow> Inr None)"

text \<open>
  \<^verbatim>\<open>find\<close>. Its declared result is
  \<^verbatim>\<open>Item[] | PaginatedItems | Item | undefined\<close> (the fields of
  \<^verbatim>\<open>PaginatedItems\<close> carry the prefix \<open>p\<close> here). The query is an open mapping; the
  body reads the key \<^verbatim>\<open>_embed\<close> only, so the query is that key (as
  \<^verbatim>\<open>ensureArray\<close> types it) and the list of all other keys with their values.
\<close>

record 'n paginatedItems =
  pfirst :: int
  pprev :: "int option"
  pnext :: "int option"
  plast :: int
  ppages :: int
  pitems :: int
  pdata :: "'n item list"

datatype 'n found =
    Undefined
  | FoundItem "'n item"
  | FoundItems "'n item list"
  | FoundPage "'n paginatedItems"
  | FoundInherited string

record 'n query =
  q_embed :: names_arg
  q_others :: "(string \<times> 'n jv) list"

text \<open>\<^verbatim>\<open>items.map((item) => embed(db, name, item, related))\<close>\<close>

fun mapEmbed ::
  "(string \<Rightarrow> string) \<Rightarrow> 'n data \<Rightarrow> string \<Rightarrow> string \<Rightarrow> 'n item list \<Rightarrow> error + 'n item list" where
  "mapEmbed sg d name related [] = Inr []"
| "mapEmbed sg d name related (it # its) =
     (case embed sg d name it related of
        Inl e \<Rightarrow> Inl e
      | Inr it' \<Rightarrow>
          (case mapEmbed sg d name related its of
             Inl e \<Rightarrow> Inl e
           | Inr its' \<Rightarrow> Inr (it' # its')))"

fun embedAll ::
  "(string \<Rightarrow> string) \<Rightarrow> 'n data \<Rightarrow> string \<Rightarrow> 'n item list \<Rightarrow> string list \<Rightarrow> error + 'n item list" where
  "embedAll sg d name its [] = Inr its"
| "embedAll sg d name its (related # rest) =
     (case mapEmbed sg d name related its of
        Inl e \<Rightarrow> Inl e
      | Inr its' \<Rightarrow> embedAll sg d name its' rest)"

definition find_items ::
  "(string \<Rightarrow> string) \<Rightarrow> 'n service \<Rightarrow> string \<Rightarrow> 'n query \<Rightarrow> error + 'n found" where
  "find_items sg s name q =
     (case get s name of
        None \<Rightarrow> Inr Undefined
      | Some (Single it) \<Rightarrow> Inr (FoundItem it)
      | Some (Inherited member) \<Rightarrow> Inr (FoundInherited member)
      | Some (Items xs) \<Rightarrow>
          (case embedAll sg (data s) name xs (ensureArray (q_embed q)) of
             Inl e \<Rightarrow> Inl e
           | Inr xs' \<Rightarrow> Inr (FoundItems xs')))"

text \<open>
  \<^verbatim>\<open>create\<close>: \<^verbatim>\<open>{ id: randomId(), ...data }\<close>, pushed onto the array, then
  \<^verbatim>\<open>db.write()\<close>.
\<close>

definition create ::
  "(nat \<Rightarrow> draw) \<Rightarrow> 'n service \<Rightarrow> string \<Rightarrow> 'n item \<Rightarrow> 'n item option \<times> 'n service" where
  "create rnd s name dat =
     (case get s name of
        Some (Items xs) \<Rightarrow>
          (let it = spread [(''id'', JStr (randomId (rnd (drawn s))))] dat
           in (Some it,
               s\<lparr>data := AList.update name (Items (xs @ [it])) (data s),
                 writes := Suc (writes s),
                 drawn := Suc (drawn s)\<rparr>))
      | _ \<Rightarrow> (None, s))"

text \<open>
  \<^verbatim>\<open>updateById\<close>: \<^verbatim>\<open>{ ...item, ...body, id }\<close> takes the place of the record
  (\<^verbatim>\<open>items.splice(index, 1, nextItem)\<close>).
\<close>

definition updateById ::
  "'n service \<Rightarrow> string \<Rightarrow> string \<Rightarrow> 'n item \<Rightarrow> 'n item option \<times> 'n service" where
  "updateById s name ident body =
     (case get s name of
        Some (Items xs) \<Rightarrow>
          (case find (hasId ident) xs of
             None \<Rightarrow> (None, s)
           | Some it \<Rightarrow>
               (let nextItem = AList.update ''id'' (JStr ident) (spread (spread [] it) body);
                    index = indexOfId ident xs
                in (Some nextItem,
                    s\<lparr>data := AList.update name
                                 (Items (take index xs @ [nextItem] @ drop (Suc index) xs)) (data s),
                      writes := Suc (writes s)\<rparr>)))
      | _ \<Rightarrow> (None, s))"

text \<open>
  \<^verbatim>\<open>destroyById\<close>: the record is cut out (\<^verbatim>\<open>items.splice(index, 1)\<close>), the
  foreign keys that point to it are nullified, the dependents are deleted.
\<close>

definition destroyById ::
  "(string \<Rightarrow> string) \<Rightarrow> 'n service \<Rightarrow> string \<Rightarrow> string \<Rightarrow> names_arg \<Rightarrow> 'n item option \<times> 'n service" where
  "destroyById sg s name ident dependent =
     (case get s name of
        Some (Items xs) \<Rightarrow>
          (case find (hasId ident) xs of
             None \<Rightarrow> (None, s)
           | Some it \<Rightarrow>
               (let index = indexOfId ident xs;
                    d1 = AList.update name (Items (take index xs @ drop (Suc index) xs)) (data s);
                    d2 = nullifyForeignKey sg d1 name ident;
                    d3 = deleteDependents sg d2 name (ensureArray dependent)
                in (Some it, s\<lparr>data := d3, writes := Suc (writes s)\<rparr>)))
      | _ \<Rightarrow> (None, s))"

section \<open>The identifiers to generate\<close>



section \<open>The data of the test suite\<close>




definition post1 :: "int item" where
  "post1 = [(''id'', JStr ''1''), (''title'', JStr ''a''), (''views'', JNum 100),
            (''published'', JBool True), (''author'', JObj [(''name'', JStr ''foo'')]),
            (''tags'', JArr [JStr ''foo'', JStr ''bar''])]"

definition post2 :: "int item" where
  "post2 = [(''id'', JStr ''2''), (''title'', JStr ''b''), (''views'', JNum 200),
            (''published'', JBool False), (''author'', JObj [(''name'', JStr ''bar'')]),
            (''tags'', JArr [JStr ''bar''])]"

definition post3 :: "int item" where
  "post3 = [(''id'', JStr ''3''), (''title'', JStr ''c''), (''views'', JNum 300),
            (''published'', JBool False), (''author'', JObj [(''name'', JStr ''baz'')]),
            (''tags'', JArr [JStr ''foo''])]"

definition comment1 :: "int item" where
  "comment1 = [(''id'', JStr ''1''), (''title'', JStr ''a''), (''postId'', JStr ''1'')]"

definition obj :: "int item" where
  "obj = [(''f1'', JStr ''foo'')]"

definition testData :: "int data" where
  "testData = [(''posts'', Items [post1, post2, post3]),
               (''comments'', Items [comment1]),
               (''object'', Single obj)]"

definition testService :: "int service" where
  "testService = \<lparr>data = testData, writes = 0, drawn = 0\<rparr>"

definition singular_s :: "string \<Rightarrow> string" where
  "singular_s name = (if name \<noteq> [] \<and> last name = CHR ''s'' then butlast name else name)"

definition sameDraws :: "nat \<Rightarrow> draw" where
  "sameDraws n = (0xab, 0xcd)"


definition noQuery :: "int query" where
  "noQuery = \<lparr>q_embed = NoArg, q_others = []\<rparr>"

text \<open>The first post after the update of the test \<^verbatim>\<open>updateById\<close>.\<close>

definition updatedPost :: "int item" where
  "updatedPost = [(''id'', JStr ''1''), (''title'', JStr ''updated post''), (''views'', JNum 100),
            (''published'', JBool True), (''author'', JObj [(''name'', JStr ''foo'')]),
            (''tags'', JArr [JStr ''foo'', JStr ''bar''])]"








definition unsortedService :: "int service" where
  "unsortedService = \<lparr>data = [(''posts'', Items [post2, post1])], writes = 0, drawn = 0\<rparr>"

section \<open>Properties of the building blocks\<close>

lemma strict_eq_JStr: "strict_eq v (JStr s) = (v = JStr s)"
  by (cases v) auto


lemma getp_update: "getp (AList.update k v it) k' = (if k' = k then v else getp it k')"
  by (simp add: getp_def update_conv')

lemma getp_Nil: "getp [] k = JUndef"
  by (simp add: getp_def)

lemma getp_absent: "k \<notin> fst ` set it \<Longrightarrow> getp it k = JUndef"
  by (simp add: getp_def map_of_eq_None_iff [THEN iffD2])

lemma getp_single: "getp [(k, v)] k' = (if k' = k then v else JUndef)"
  by (simp add: getp_def)

lemma map_of_fold_update:
  "map_of (fold (\<lambda>k t. AList.update k (f k) t) ks t) k =
     (if k \<in> set ks then Some (f k) else map_of t k)"
  by (induction ks arbitrary: t) (auto simp: update_conv')

lemma getp_spread:
  "getp (spread t s) k = (if k \<in> fst ` set s then getp s k else getp t k)"
  by (simp add: spread_def getp_def map_of_fold_update)

lemma length_randomId: "length (randomId d) = 4"
  by (simp add: randomId_def hexByte_def)

lemma getp_copy: "getp (spread [] it) k = getp it k"
  by (simp add: getp_spread getp_Nil getp_absent)

text \<open>The keys read in a record are not inherited from \<^verbatim>\<open>Object.prototype\<close>.\<close>

lemma id_not_inherited: "''id'' \<notin> set protoNames"
  by (simp add: protoNames_def)

lemma foreignKey_not_inherited: "foreignKey sg name \<notin> set protoNames"
proof
  assume a: "foreignKey sg name \<in> set protoNames"
  have "\<forall>p\<in>set protoNames. rev p \<noteq> rev (sg name @ ''Id'')"
    by (simp add: protoNames_def)
  with a show False
    by (auto simp: foreignKey_def)
qed







lemma find_indexOfId:
  "find (hasId ident) xs = Some it \<Longrightarrow>
     indexOfId ident xs < length xs \<and> xs ! indexOfId ident xs = it \<and> hasId ident it"
  unfolding indexOfId_def
  by (induction xs) (auto split: if_splits)

lemma splice_replace:
  "i < length xs \<Longrightarrow> take i xs @ [a] @ drop (Suc i) xs = xs[i := a]"
  by (simp add: upd_conv_take_nth_drop)

lemma get_data_update:
  "get (s\<lparr>data := AList.update name c (data s), writes := w\<rparr>) other =
     (if other = name then Some c else get s other)"
  by (simp add: get_def dataProp_def update_conv')




















section \<open>The claims\<close>

text \<open>
  What the five operations do with a name that the document does not have
  (\<^verbatim>\<open>has(name)\<close> is false): four return \<^verbatim>\<open>undefined\<close> and change nothing;
  \<^verbatim>\<open>find\<close> returns what \<^verbatim>\<open>#get\<close> gave it, and that is the inherited member
  when the name is a property name of \<^verbatim>\<open>Object.prototype\<close>.
\<close>

lemma not_own_key:
  assumes "\<not> has s name"
  shows "findById sg s name ident e = Inr None
       \<and> create rnd s name dat = (None, s)
       \<and> updateById s name ident body = (None, s)
       \<and> destroyById sg s name ident dependent = (None, s)
       \<and> find_items sg s name q =
           Inr (if name \<in> set protoNames then FoundInherited name else Undefined)"
  using assms
  by (simp add: has_def get_def dataProp_def find_items_def findById_def create_def
        updateById_def destroyById_def)

text \<open>
  C9. The name \<^verbatim>\<open>toString\<close> is not a key of the document of the test suite, and
  \<^verbatim>\<open>find('toString')\<close> does not return \<^verbatim>\<open>undefined\<close>: it returns the function
  that the document inherits, because \<^verbatim>\<open>#get\<close> reads \<^verbatim>\<open>this.#db.data[name]\<close>
  where \<^verbatim>\<open>has\<close> asks \<^verbatim>\<open>hasOwnProperty\<close>. The other four operations return
  \<^verbatim>\<open>undefined\<close> there and leave the service as it was, and so does \<^verbatim>\<open>find\<close>
  for the name \<^verbatim>\<open>xxx\<close> of the test.
\<close>

theorem find_inherited_name:
  "\<not> has testService ''toString''
   \<and> find_items singular_s testService ''toString'' noQuery = Inr (FoundInherited ''toString'')
   \<and> findById singular_s testService ''toString'' ''1'' NoArg = Inr None
   \<and> create sameDraws testService ''toString'' [(''title'', JStr ''new post'')] = (None, testService)
   \<and> updateById testService ''toString'' ''1'' [(''title'', JStr ''updated post'')] = (None, testService)
   \<and> destroyById singular_s testService ''toString'' ''1'' NoArg = (None, testService)
   \<and> \<not> has testService ''xxx''
   \<and> find_items singular_s testService ''xxx'' noQuery = Inr Undefined"
proof -
  have h: "\<not> has testService ''toString''" and h': "\<not> has testService ''xxx''"
    by (simp_all add: has_def testService_def testData_def)
  from not_own_key [OF h] not_own_key [OF h'] h h' show ?thesis
    by (simp add: protoNames_def)
qed

text \<open>
  C1, as the code has it. On a list collection \<^verbatim>\<open>create\<close> returns the record
  \<^verbatim>\<open>{ id: randomId(), ...data }\<close> and appends it: every field other than
  \<^verbatim>\<open>id\<close> is the input's; the id is the new four-digit (so non-empty) identifier
  when the input has no \<^verbatim>\<open>id\<close> property, and it is the input's \<^verbatim>\<open>id\<close> when
  the input has one, because the spread comes after the new id.
\<close>

theorem create_id:
  assumes "get s name = Some (Items xs)"
  shows "\<exists>it. create rnd s name dat =
             (Some it,
              s\<lparr>data := AList.update name (Items (xs @ [it])) (data s),
                writes := Suc (writes s), drawn := Suc (drawn s)\<rparr>)
         \<and> getp it ''id'' =
             (if ''id'' \<in> fst ` set dat then getp dat ''id''
              else JStr (randomId (rnd (drawn s))))
         \<and> randomId (rnd (drawn s)) \<noteq> []
         \<and> (\<forall>k. k \<noteq> ''id'' \<longrightarrow> getp it k = getp dat k)"
proof -
  have ne: "randomId (rnd (drawn s)) \<noteq> []"
    using length_randomId [of "rnd (drawn s)"] by auto
  have other: "getp (spread [(''id'', JStr (randomId (rnd (drawn s))))] dat) k = getp dat k"
    if "k \<noteq> ''id''" for k
    using that by (simp add: getp_spread getp_absent getp_single)
  have ident: "getp (spread [(''id'', JStr (randomId (rnd (drawn s))))] dat) ''id'' =
      (if ''id'' \<in> fst ` set dat then getp dat ''id'' else JStr (randomId (rnd (drawn s))))"
    by (simp add: getp_spread getp_single)
  show ?thesis
    apply (rule exI [of _ "spread [(''id'', JStr (randomId (rnd (drawn s))))] dat"])
    using assms ne other ident by (simp add: create_def Let_def)
qed

theorem create_id_witness:
  "get testService ''posts'' = Some (Items [post1, post2, post3])
   \<and> fst (create sameDraws testService ''posts'' [(''title'', JStr ''x'')]) =
        Some [(''id'', JStr ''abcd''), (''title'', JStr ''x'')]
   \<and> get (snd (create sameDraws testService ''posts'' [(''title'', JStr ''x'')])) ''posts'' =
        Some (Items [post1, post2, post3, [(''id'', JStr ''abcd''), (''title'', JStr ''x'')]])"
proof -
  have h: "get testService ''posts'' = Some (Items [post1, post2, post3])"
    by (simp add: get_def dataProp_def testService_def testData_def)
  have v: "spread [(''id'', JStr (randomId (sameDraws (drawn testService))))] [(''title'', JStr ''x'')]
           = [(''id'', JStr ''abcd''), (''title'', JStr ''x'')]"
    by (simp add: spread_def getp_def randomId_def hexByte_def hexDigit_def sameDraws_def)
  from create_id [OF h, of sameDraws "[(''title'', JStr ''x'')]"]
  obtain it where
    c: "create sameDraws testService ''posts'' [(''title'', JStr ''x'')] =
          (Some it, testService\<lparr>data := AList.update ''posts'' (Items ([post1, post2, post3] @ [it]))
             (data testService), writes := Suc (writes testService), drawn := Suc (drawn testService)\<rparr>)"
    by blast
  have "it = [(''id'', JStr ''abcd''), (''title'', JStr ''x'')]"
    using c h v by (auto simp add: create_def Let_def)
  with c h show ?thesis
    by (simp add: get_def dataProp_def update_conv')
qed

text \<open>
  C1 as the specification words it fails: an \<^verbatim>\<open>id\<close> in the input is not
  overwritten. The new identifier is \<^verbatim>\<open>abcd\<close>, the record returned has the id
  \<^verbatim>\<open>42\<close> of the input.
\<close>

theorem create_keeps_supplied_id:
  "fst (create sameDraws testService ''posts'' [(''id'', JStr ''42''), (''title'', JStr ''x'')]) =
     Some [(''id'', JStr ''42''), (''title'', JStr ''x'')]
   \<and> randomId (sameDraws (drawn testService)) = ''abcd''"
  by (simp add: create_def Let_def get_def dataProp_def testService_def testData_def spread_def getp_def
        randomId_def hexByte_def hexDigit_def sameDraws_def)

text \<open>
  C7. On a list collection that has a record with the given id, \<^verbatim>\<open>updateById\<close>
  returns \<^verbatim>\<open>{ ...item, ...body, id }\<close>: the id is the id of the record found (the
  one asked for, whatever \<^verbatim>\<open>id\<close> the body carries), every other field is the
  body's where the body has it and the record's otherwise, and the new record stands
  at the position of the old one; the other collections are as before.
\<close>

theorem updateById_merge:
  assumes "get s name = Some (Items xs)" and "find (hasId ident) xs = Some it"
  shows "\<exists>nx i s'. updateById s name ident body = (Some nx, s')
         \<and> i < length xs \<and> xs ! i = it \<and> getp it ''id'' = JStr ident
         \<and> getp nx ''id'' = JStr ident
         \<and> (\<forall>k. k \<noteq> ''id'' \<longrightarrow>
               getp nx k = (if k \<in> fst ` set body then getp body k else getp it k))
         \<and> get s' name = Some (Items (xs[i := nx]))
         \<and> (\<forall>other. other \<noteq> name \<longrightarrow> get s' other = get s other)
         \<and> writes s' = Suc (writes s)"
proof -
  define nx where "nx = AList.update ''id'' (JStr ident) (spread (spread [] it) body)"
  define i where "i = indexOfId ident xs"
  define s' where "s' = s\<lparr>data := AList.update name (Items (xs[i := nx])) (data s),
                          writes := Suc (writes s)\<rparr>"
  from find_indexOfId [OF assms(2)]
  have i: "i < length xs" "xs ! i = it" and idt: "getp it ''id'' = JStr ident"
    by (simp_all add: i_def hasId_def strict_eq_JStr)
  have run: "updateById s name ident body = (Some nx, s')"
    using assms i(1) splice_replace [OF i(1), of nx]
    by (simp add: updateById_def Let_def nx_def s'_def i_def)
  have fields: "getp nx k = (if k \<in> fst ` set body then getp body k else getp it k)"
    if "k \<noteq> ''id''" for k
    using that by (simp add: nx_def getp_update getp_spread [of "spread [] it" body] getp_copy)
  have "getp nx ''id'' = JStr ident"
    by (simp add: nx_def getp_update)
  moreover have "get s' name = Some (Items (xs[i := nx]))"
    by (simp add: s'_def get_data_update)
  moreover have "get s' other = get s other" if "other \<noteq> name" for other
    using that by (simp add: s'_def get_data_update)
  moreover have "writes s' = Suc (writes s)"
    by (simp add: s'_def)
  ultimately show ?thesis
    using run i idt fields by blast
qed

theorem updateById_merge_witness:
  "get testService ''posts'' = Some (Items [post1, post2, post3])
   \<and> find (hasId ''1'') [post1, post2, post3] = Some post1
   \<and> fst (updateById testService ''posts'' ''1''
            [(''id'', JStr ''xxx''), (''title'', JStr ''updated post'')]) = Some updatedPost
   \<and> get (snd (updateById testService ''posts'' ''1''
            [(''id'', JStr ''xxx''), (''title'', JStr ''updated post'')])) ''posts''
        = Some (Items [updatedPost, post2, post3])
   \<and> getp updatedPost ''id'' = JStr ''1''
   \<and> getp updatedPost ''title'' = JStr ''updated post''
   \<and> getp updatedPost ''views'' = JNum 100"
proof -
  let ?body = "[(''id'', JStr ''xxx''), (''title'', JStr ''updated post'')]"
  have h1: "get testService ''posts'' = Some (Items [post1, post2, post3])"
    by (simp add: get_def dataProp_def testService_def testData_def)
  have h2: "find (hasId ''1'') [post1, post2, post3] = Some post1"
    by (simp add: hasId_def getp_def post1_def)
  have run: "updateById testService ''posts'' ''1'' ?body
      = (Some updatedPost,
         testService\<lparr>data := AList.update ''posts'' (Items [updatedPost, post2, post3])
                         (data testService), writes := Suc (writes testService)\<rparr>)"
    using h1 h2
    by (simp add: updateById_def Let_def indexOfId_def hasId_def spread_def getp_def
          post1_def updatedPost_def)
  have f: "getp updatedPost ''id'' = JStr ''1''
     \<and> (\<forall>k. k \<noteq> ''id'' \<longrightarrow>
           getp updatedPost k = (if k \<in> fst ` set ?body then getp ?body k else getp post1 k))"
    using updateById_merge [OF h1 h2, of ?body] run
    by (elim exE conjE) simp
  then have "getp updatedPost ''title'' = JStr ''updated post''"
    "getp updatedPost ''views'' = JNum 100"
    by (simp_all add: getp_def post1_def)
  with f h1 h2 run show ?thesis
    by (simp add: get_data_update)
qed



text \<open>
  C8. \<^verbatim>\<open>embed\<close> calls \<^verbatim>\<open>relatedData.filter\<close> on whatever
  \<^verbatim>\<open>db.data[related]\<close> is, once it is truthy; it has no \<^verbatim>\<open>Array.isArray\<close>
  test. The name \<^verbatim>\<open>constructor\<close> is not a key of the document of the test suite,
  so no related collection of that name exists, and \<^verbatim>\<open>embed\<close> throws where the
  record should come back unchanged; it throws as well for \<^verbatim>\<open>object\<close>, which is
  a single record, and so does \<^verbatim>\<open>findById\<close> with such an \<^verbatim>\<open>_embed\<close>. On
  the empty document, where no collection exists at all, \<^verbatim>\<open>embed\<close> throws for
  each of the names of \<^verbatim>\<open>Object.prototype\<close>. For the list collection
  \<^verbatim>\<open>comments\<close> and for the name \<^verbatim>\<open>xxx\<close> it does what the claim says.
\<close>

theorem embed_throws:
  "\<not> has testService ''constructor''
   \<and> embed singular_s testData ''posts'' post1 ''constructor'' = Inl TypeError
   \<and> map_of testData ''object'' = Some (Single obj)
   \<and> embed singular_s testData ''posts'' post1 ''object'' = Inl TypeError
   \<and> findById singular_s testService ''posts'' ''1'' (OneName ''constructor'') = Inl TypeError
   \<and> embed sg [] name it related = (if related \<in> set protoNames then Inl TypeError else Inr it)
   \<and> embed singular_s testData ''posts'' post1 ''comments'' =
        Inr (post1 @ [(''comments'', JArr [JObj comment1])])
   \<and> embed singular_s testData ''posts'' post2 ''comments'' = Inr (post2 @ [(''comments'', JArr [])])
   \<and> embed singular_s testData ''posts'' post1 ''xxx'' = Inr post1"
proof -
  have fk: "foreignKey singular_s ''posts'' = ''postId''"
    by (simp add: foreignKey_def singular_s_def)
  have c: "dataProp testData ''constructor'' = Some (Inherited ''constructor'')"
    and o: "dataProp testData ''object'' = Some (Single obj)"
    and l: "dataProp testData ''comments'' = Some (Items [comment1])"
    and x: "dataProp testData ''xxx'' = None"
    by (simp_all add: dataProp_def testData_def protoNames_def)
  have e1: "embed singular_s testData ''posts'' post1 ''constructor'' = Inl TypeError"
    and e2: "embed singular_s testData ''posts'' post1 ''object'' = Inl TypeError"
    and e3: "embed singular_s testData ''posts'' post1 ''xxx'' = Inr post1"
    by (simp_all add: embed_def c o x)
  have e4: "embed singular_s testData ''posts'' post1 ''comments'' =
        Inr (post1 @ [(''comments'', JArr [JObj comment1])])"
    by (simp add: embed_def l fk Let_def spread_def getp_def post1_def comment1_def)
  have e5: "embed singular_s testData ''posts'' post2 ''comments'' = Inr (post2 @ [(''comments'', JArr [])])"
    by (simp add: embed_def l fk Let_def spread_def getp_def post2_def comment1_def)
  have e6: "embed sg [] name it related = (if related \<in> set protoNames then Inl TypeError else Inr it)"
    by (simp add: embed_def dataProp_def)
  have "find (hasId ''1'') [post1, post2, post3] = Some post1"
    by (simp add: hasId_def getp_def post1_def)
  then have f: "findById singular_s testService ''posts'' ''1'' (OneName ''constructor'') = Inl TypeError"
    using e1 by (simp add: findById_def get_def dataProp_def testService_def testData_def)
  have "\<not> has testService ''constructor''" "map_of testData ''object'' = Some (Single obj)"
    by (simp_all add: has_def testService_def testData_def)
  with e1 e2 e3 e4 e5 e6 f show ?thesis
    by simp
qed






text \<open>
  C2. The body of \<^verbatim>\<open>find\<close> ends after the embedding: no key of the query is read
  as a filter. On the records of the test suite, \<^verbatim>\<open>find('posts', {views_lt: '300'})\<close>
  returns all three posts, where the test expects the first two; and whatever the keys
  other than \<^verbatim>\<open>_embed\<close> are, the result is the same.
\<close>

theorem find_ignores_filter:
  "find_items singular_s testService ''posts''
     \<lparr>q_embed = NoArg, q_others = [(''views_lt'', JStr ''300'')]\<rparr>
   = Inr (FoundItems [post1, post2, post3])
   \<and> find_items sg s name (q\<lparr>q_others := others\<rparr>) = find_items sg s name q"
  by (simp add: find_items_def get_def dataProp_def testService_def testData_def
        split: option.splits coll.splits)

text \<open>
  C3. \<^verbatim>\<open>find\<close> never builds a \<^verbatim>\<open>PaginatedItems\<close>: with
  \<^verbatim>\<open>{_page: 1, _per_page: 2}\<close> on the three posts it returns the plain list of all
  three, where the test expects the first page of two.
\<close>

theorem find_ignores_page:
  "find_items singular_s testService ''posts''
     \<lparr>q_embed = NoArg, q_others = [(''_page'', JNum 1), (''_per_page'', JNum 2)]\<rparr>
   = Inr (FoundItems [post1, post2, post3])
   \<and> find_items sg s name q \<noteq> Inr (FoundPage page)"
  by (simp add: find_items_def get_def dataProp_def testService_def testData_def
        split: option.splits coll.splits sum.splits)

text \<open>
  C4. \<^verbatim>\<open>find\<close> does not sort: with \<^verbatim>\<open>{_sort: 'views'}\<close> on the posts held in
  the order 200, 100 of their views, it returns them in that order; a key
  \<^verbatim>\<open>_sort\<close> added to a query changes nothing.
\<close>

theorem find_ignores_sort:
  "find_items singular_s unsortedService ''posts''
     \<lparr>q_embed = NoArg, q_others = [(''_sort'', JStr ''views'')]\<rparr>
   = Inr (FoundItems [post2, post1])
   \<and> getp post2 ''views'' = JNum 200 \<and> getp post1 ''views'' = JNum 100
   \<and> find_items sg s name (q\<lparr>q_others := (''_sort'', v) # q_others q\<rparr>) = find_items sg s name q"
  by (simp add: find_items_def get_def dataProp_def unsortedService_def getp_def post1_def post2_def
        split: option.splits coll.splits)

end
